theory Spec2Isabelle
  imports Complex_Main "HOL-Library.Signed_Division"
begin

unbundle bit_operations_syntax

section \<open>BigInt arithmetic\<close>

text \<open>
  A JavaScript \<^verbatim>\<open>bigint\<close> is an unbounded integer, modelled as \<^typ>\<open>int\<close>.
  Its division truncates towards zero, which is \<^term>\<open>(sdiv)\<close>, not the flooring
  \<^term>\<open>(div)\<close> of HOL. Its right shift by a non-negative count is the flooring division
  by a power of two, and a right shift by a negative count is a left shift.
\<close>

definition bigint_shr :: "int \<Rightarrow> int \<Rightarrow> int" where
  "bigint_shr a n = (if 0 \<le> n then drop_bit (nat n) a else push_bit (nat (- n)) a)"

section \<open>Constants (types/diesel.ts, DIESEL\_CONSTANTS)\<close>

definition GENESIS_BLOCK :: int where
  "GENESIS_BLOCK = 800000"

definition HALVING_INTERVAL :: int where
  "HALVING_INTERVAL = 210000"

definition INITIAL_REWARD :: int where
  "INITIAL_REWARD = 50 * 100000000"

definition MAX_SUPPLY :: int where
  "MAX_SUPPLY = 156250000000000"

section \<open>DieselEmissionCalculator\<close>

definition calculateBlockReward :: "int \<Rightarrow> int" where
  "calculateBlockReward blockHeight =
     (if blockHeight < GENESIS_BLOCK then 0
      else
        let blocksSinceGenesis = blockHeight - GENESIS_BLOCK;
            halvingEpoch = blocksSinceGenesis sdiv HALVING_INTERVAL;
            reward = bigint_shr INITIAL_REWARD halvingEpoch
        in reward)"

text \<open>
  The \<^verbatim>\<open>while\<close> loop of \<^verbatim>\<open>calculateCumulativeEmission\<close>, with the loop variables
  \<^verbatim>\<open>blockHeight\<close> and \<^verbatim>\<open>totalEmission\<close> as arguments. The \<^verbatim>\<open>break\<close> after the clamp
  is the branch that returns \<^term>\<open>MAX_SUPPLY\<close> without a recursive call.
\<close>

function cumulativeEmissionLoop :: "int \<Rightarrow> int \<Rightarrow> int \<Rightarrow> int" where
  "cumulativeEmissionLoop currentBlock blockHeight totalEmission =
     (if blockHeight \<le> currentBlock \<and> totalEmission < MAX_SUPPLY then
        let epochStart = blockHeight;
            epochNumber = (blockHeight - GENESIS_BLOCK) sdiv HALVING_INTERVAL;
            nextHalving = GENESIS_BLOCK + (epochNumber + 1) * HALVING_INTERVAL;
            epochEnd = (if nextHalving < currentBlock then nextHalving else currentBlock + 1);
            blocksInEpoch = epochEnd - epochStart;
            rewardPerBlock = bigint_shr INITIAL_REWARD epochNumber;
            epochEmission = blocksInEpoch * rewardPerBlock;
            totalEmission' = totalEmission + epochEmission
        in if totalEmission' > MAX_SUPPLY then MAX_SUPPLY
           else cumulativeEmissionLoop currentBlock epochEnd totalEmission'
      else totalEmission)"
  by pat_completeness auto
termination
proof (relation "measure (\<lambda>(currentBlock, blockHeight, totalEmission). nat (currentBlock + 1 - blockHeight))")
  show "wf (measure (\<lambda>(currentBlock, blockHeight, totalEmission). nat (currentBlock + 1 - blockHeight)))"
    by simp
next
  fix currentBlock blockHeight totalEmission :: int
  fix epochStart epochNumber nextHalving epochEnd blocksInEpoch rewardPerBlock epochEmission x
  assume loop: "blockHeight \<le> currentBlock \<and> totalEmission < MAX_SUPPLY"
    and en: "epochNumber = (blockHeight - GENESIS_BLOCK) sdiv HALVING_INTERVAL"
    and nh: "nextHalving = GENESIS_BLOCK + (epochNumber + 1) * HALVING_INTERVAL"
    and ee: "epochEnd = (if nextHalving < currentBlock then nextHalving else currentBlock + 1)"
  define d where "d = blockHeight - GENESIS_BLOCK"
  have "d div HALVING_INTERVAL \<le> d sdiv HALVING_INTERVAL"
    by (simp add: signed_divide_int_eq_divide_int)
  moreover have "d < (d div HALVING_INTERVAL + 1) * HALVING_INTERVAL"
    using pos_mod_bound [of HALVING_INTERVAL d] div_mult_mod_eq [of d HALVING_INTERVAL]
    by (simp add: HALVING_INTERVAL_def algebra_simps)
  moreover have "(d div HALVING_INTERVAL + 1) * HALVING_INTERVAL \<le> (d sdiv HALVING_INTERVAL + 1) * HALVING_INTERVAL"
    if "d div HALVING_INTERVAL \<le> d sdiv HALVING_INTERVAL"
    using that by (intro mult_right_mono) (simp_all add: HALVING_INTERVAL_def)
  ultimately have "d < (d sdiv HALVING_INTERVAL + 1) * HALVING_INTERVAL"
    by linarith
  then have "blockHeight < nextHalving"
    by (simp add: nh en d_def)
  with loop ee
  show "((currentBlock, epochEnd, x), (currentBlock, blockHeight, totalEmission))
      \<in> measure (\<lambda>(currentBlock, blockHeight, totalEmission). nat (currentBlock + 1 - blockHeight))"
    by (simp split: if_splits)
qed

declare cumulativeEmissionLoop.simps [simp del]

definition calculateCumulativeEmission :: "int \<Rightarrow> int" where
  "calculateCumulativeEmission currentBlock =
     (if currentBlock < GENESIS_BLOCK then 0
      else cumulativeEmissionLoop currentBlock GENESIS_BLOCK 0)"

text \<open>
  The reference the epoch-boundary iteration is compared with, written from the words of
  the specification: the rewards of all heights from genesis to \<open>h\<close>, added one by one,
  clamped to the maximum supply.
\<close>

definition naiveCumulativeEmission :: "int \<Rightarrow> int" where
  "naiveCumulativeEmission h =
     min (sum_list (map calculateBlockReward [GENESIS_BLOCK..h])) MAX_SUPPLY"

section \<open>JavaScript numbers\<close>

text \<open>
  A finite JavaScript \<^verbatim>\<open>number\<close> is modelled as the \<^typ>\<open>real\<close> it denotes. Every
  arithmetic operation on numbers is the exact operation followed by rounding to a double;
  the rounding function \<open>fl\<close> is a parameter of every function that computes with
  numbers, so that nothing proved below depends on arithmetic being exact. Counters and
  array lengths, which stay far below \<open>2\<^sup>5\<^sup>3\<close>, are natural numbers. The model has no
  infinities: a BigInt beyond the double range would convert to \<^verbatim>\<open>Infinity\<close>, and the
  only place where \<^verbatim>\<open>NaN\<close> can arise (the mean of an empty window) returns \<^const>\<open>None\<close>.
\<close>

type_synonym rounding = "real \<Rightarrow> real"

definition Number :: "rounding \<Rightarrow> int \<Rightarrow> real" where
  "Number fl k = fl (of_int k)"

definition number_add :: "rounding \<Rightarrow> real \<Rightarrow> real \<Rightarrow> real" where
  "number_add fl a b = fl (a + b)"

definition number_sub :: "rounding \<Rightarrow> real \<Rightarrow> real \<Rightarrow> real" where
  "number_sub fl a b = fl (a - b)"

definition number_mul :: "rounding \<Rightarrow> real \<Rightarrow> real \<Rightarrow> real" where
  "number_mul fl a b = fl (a * b)"

definition number_div :: "rounding \<Rightarrow> real \<Rightarrow> real \<Rightarrow> real" where
  "number_div fl a b = fl (a / b)"

text \<open>
  What the proofs use of IEEE 754 round-to-nearest: it is monotone, and it leaves every
  double unchanged. The doubles are the numbers \<open>m \<sqdot> 2\<^sup>e\<close> with \<open>\<bar>m\<bar> < 2\<^sup>5\<^sup>3\<close> and
  \<open>-1074 \<le> e \<le> 971\<close>.
\<close>

definition double_rounding :: "rounding \<Rightarrow> bool" where
  "double_rounding fl \<longleftrightarrow>
     (\<forall>x y. x \<le> y \<longrightarrow> fl x \<le> fl y) \<and>
     (\<forall>m e::int. \<bar>m\<bar> < 2 ^ 53 \<and> - 1074 \<le> e \<and> e \<le> 971 \<longrightarrow>
        fl (of_int m * 2 powi e) = of_int m * 2 powi e)"

text \<open>
  \<^verbatim>\<open>Array.prototype.slice(start, end)\<close> for integer arguments: a negative index counts
  from the end of the array, and both indices are clipped to the array.
\<close>

definition slice :: "int \<Rightarrow> int \<Rightarrow> 'a list \<Rightarrow> 'a list" where
  "slice start end xs =
     (let len = int (length xs);
          from = (if start < 0 then max (len + start) 0 else min start len);
          to = (if end < 0 then max (len + end) 0 else min end len)
      in take (nat (to - from)) (drop (nat from) xs))"

definition slice_from :: "int \<Rightarrow> 'a list \<Rightarrow> 'a list" where
  "slice_from start xs = slice start (int (length xs)) xs"

section \<open>MintTracker\<close>

record ClaimantData =
  address :: string
  blockHeight :: int
  amount :: int
  transactionId :: string
  timestamp :: nat

record ParticipationData =
  blockHeight :: int
  totalClaimants :: nat
  rewardPerClaimant :: int
  totalDistributed :: int
  timestamp :: nat

record TrendData =
  blocks :: "ParticipationData list"
  averageParticipants :: real
  peakParticipants :: nat
  minParticipants :: nat
  totalUniqueAddresses :: nat

subsection \<open>The external claimant source\<close>

text \<open>
  One entry of the array that \<^verbatim>\<open>protorunesbyheight\<close> answers with, as far as
  \<^verbatim>\<open>getBlockClaimants\<close> reads it. \<open>mint_alkane_id\<close> is \<^verbatim>\<open>entry.alkane_id?.toString()\<close>
  (\<^const>\<open>None\<close> when the property is absent). A falsy \<^verbatim>\<open>address\<close>, \<^verbatim>\<open>txid\<close> or
  \<^verbatim>\<open>timestamp\<close> is the empty string or \<open>0\<close>. \<open>mint_amount\<close> is the value of
  \<^verbatim>\<open>BigInt(mint.amount || 0)\<close>, or \<^const>\<open>None\<close> when that conversion throws.
\<close>

record ProtoruneEntry =
  mint_alkane_id :: "string option"
  mint_address :: string
  mint_amount :: "int option"
  mint_txid :: string
  mint_timestamp :: nat

text \<open>
  The outcome of one call of \<^verbatim>\<open>rpcService.protorunesByHeight\<close>: the call throws (the
  transport fails, or the node answers with an error, as it does for a height it has not
  indexed), or it returns something without a \<^verbatim>\<open>result\<close> array, or it returns the array.
\<close>

datatype protorunes_response =
  RpcThrows
  | NoResultArray
  | ResultArray "ProtoruneEntry list"

text \<open>
  The world outside the tracker: \<open>getBlockchainInfo\<close> is \<^const>\<open>None\<close> when the call (or
  reading the height from its answer) throws and otherwise the value of
  \<^verbatim>\<open>BigInt(blockInfo.blocks || 0)\<close>; \<open>now\<close> is \<^verbatim>\<open>Date.now()\<close>.
\<close>

record rpc_world =
  getBlockchainInfo :: "int option"
  protorunesByHeight :: "int \<Rightarrow> protorunes_response"
  now :: nat

definition GENESIS_BLOCK_toString :: string where
  "GENESIS_BLOCK_toString = ''800000''"

definition getBlockClaimants :: "rpc_world \<Rightarrow> int \<Rightarrow> ClaimantData list" where
  "getBlockClaimants w height =
     (case protorunesByHeight w height of
        RpcThrows \<Rightarrow> []
      | NoResultArray \<Rightarrow> []
      | ResultArray result \<Rightarrow>
          let dieselMints = filter (\<lambda>entry. mint_alkane_id entry = Some GENESIS_BLOCK_toString) result
          in if \<exists>mint \<in> set dieselMints. mint_amount mint = None then []
             else map (\<lambda>mint.
                    \<lparr>ClaimantData.address = (if mint_address mint = [] then ''unknown'' else mint_address mint),
                     ClaimantData.blockHeight = height,
                     amount = the (mint_amount mint),
                     transactionId = mint_txid mint,
                     ClaimantData.timestamp = (if mint_timestamp mint = 0 then now w else mint_timestamp mint)\<rparr>)
                  dieselMints)"

definition calculateRewardPerClaimant :: "int \<Rightarrow> int \<Rightarrow> int" where
  "calculateRewardPerClaimant blockReward claimantCount =
     (if claimantCount = 0 then 0 else blockReward sdiv claimantCount)"

text \<open>
  The block reward as the tracker computes it. The three lines are repeated verbatim in
  \<^verbatim>\<open>getParticipationTrends\<close>, \<^verbatim>\<open>getCurrentBlockParticipation\<close> and
  \<^verbatim>\<open>getTreasuryParticipation\<close>; none of them calls \<^const>\<open>calculateBlockReward\<close>.
\<close>

definition trackerBlockReward :: "int \<Rightarrow> int" where
  "trackerBlockReward height =
     (let blocksSinceGenesis = height - GENESIS_BLOCK;
          halvingEpoch = blocksSinceGenesis sdiv HALVING_INTERVAL;
          blockReward = bigint_shr INITIAL_REWARD halvingEpoch
      in blockReward)"

text \<open>
  The snapshot that both \<^verbatim>\<open>getParticipationTrends\<close> (once for every height) and
  \<^verbatim>\<open>getCurrentBlockParticipation\<close> build from a height and its claimants.
\<close>

definition participationData :: "rpc_world \<Rightarrow> int \<Rightarrow> ClaimantData list \<Rightarrow> ParticipationData" where
  "participationData w height claimants =
     (let blockReward = trackerBlockReward height;
          participantCount = length claimants;
          rewardPerClaimant =
            (if participantCount > 0
             then calculateRewardPerClaimant blockReward (int participantCount)
             else 0)
      in \<lparr>blockHeight = height,
          totalClaimants = participantCount,
          rewardPerClaimant = rewardPerClaimant,
          totalDistributed = blockReward,
          timestamp = now w\<rparr>)"

text \<open>The loop variables of \<^verbatim>\<open>getParticipationTrends\<close>.\<close>

record trends_state =
  st_blocks :: "ParticipationData list"
  st_uniqueAddresses :: "string list"
  st_totalParticipants :: nat
  st_peakParticipants :: nat
  st_minParticipants :: nat

definition MAX_SAFE_INTEGER :: nat where
  "MAX_SAFE_INTEGER = 2 ^ 53 - 1"

function trendsLoop :: "rpc_world \<Rightarrow> int \<Rightarrow> int \<Rightarrow> trends_state \<Rightarrow> trends_state" where
  "trendsLoop w endBlock height st =
     (if height \<le> endBlock then
        let claimants = getBlockClaimants w height;
            uniqueAddresses = foldl (\<lambda>u c. List.insert (ClaimantData.address c) u) (st_uniqueAddresses st) claimants;
            participantCount = length claimants
        in trendsLoop w endBlock (height + 1)
             \<lparr>st_blocks = st_blocks st @ [participationData w height claimants],
              st_uniqueAddresses = uniqueAddresses,
              st_totalParticipants = st_totalParticipants st + participantCount,
              st_peakParticipants = max (st_peakParticipants st) participantCount,
              st_minParticipants =
                (if participantCount > 0 then min (st_minParticipants st) participantCount
                 else st_minParticipants st)\<rparr>
      else st)"
  by pat_completeness auto
termination
  by (relation "measure (\<lambda>(w, endBlock, height, st). nat (endBlock + 1 - height))") auto

declare trendsLoop.simps [simp del]

definition getParticipationTrends :: "rounding \<Rightarrow> rpc_world \<Rightarrow> int \<Rightarrow> int \<Rightarrow> TrendData" where
  "getParticipationTrends fl w startBlock endBlock =
     (let st = trendsLoop w endBlock startBlock
                 \<lparr>st_blocks = [], st_uniqueAddresses = [], st_totalParticipants = 0,
                  st_peakParticipants = 0, st_minParticipants = MAX_SAFE_INTEGER\<rparr>;
          blockCount = Number fl (endBlock - startBlock + 1)
      in \<lparr>blocks = st_blocks st,
          averageParticipants =
            (if blockCount > 0 then number_div fl (real (st_totalParticipants st)) blockCount else 0),
          peakParticipants = st_peakParticipants st,
          minParticipants =
            (if st_minParticipants st = MAX_SAFE_INTEGER then 0 else st_minParticipants st),
          totalUniqueAddresses = length (st_uniqueAddresses st)\<rparr>)"

text \<open>\<^const>\<open>None\<close> is the \<^verbatim>\<open>null\<close> of the \<^verbatim>\<open>catch\<close> branch.\<close>

definition getCurrentBlockParticipation :: "rpc_world \<Rightarrow> ParticipationData option" where
  "getCurrentBlockParticipation w =
     (case getBlockchainInfo w of
        None \<Rightarrow> None
      | Some currentHeight \<Rightarrow>
          let claimants = getBlockClaimants w currentHeight
          in Some (participationData w currentHeight claimants))"

text \<open>
  \<open>TREASURY_ADDRESS\<close> is \<^verbatim>\<open>import.meta.env.VITE_OYL_TREASURY_ADDRESS || ''\<close>, a
  parameter here. The source's parameter \<^verbatim>\<open>blockHeight\<close> is \<open>height\<close>, here and in
  \<^const>\<open>getBlockClaimants\<close>, because the record field has taken the name.
\<close>

definition getTreasuryParticipation :: "rpc_world \<Rightarrow> string \<Rightarrow> int \<Rightarrow> int" where
  "getTreasuryParticipation w TREASURY_ADDRESS height =
     (let claimants = getBlockClaimants w height
      in case find (\<lambda>c. ClaimantData.address c = TREASURY_ADDRESS) claimants of
           Some treasuryClaim \<Rightarrow>
             let blockReward = trackerBlockReward height;
                 maxTreasuryReward = blockReward sdiv 2
             in if amount treasuryClaim > maxTreasuryReward
                then maxTreasuryReward
                else amount treasuryClaim
         | None \<Rightarrow> 0)"

section \<open>DistributionMetrics\<close>

subsection \<open>Gini coefficient\<close>

text \<open>
  The \<^verbatim>\<open>for\<close> loop that adds \<^verbatim>\<open>BigInt(i + 1) * sortedBalances[i]\<close> for every index
  \<open>i\<close>: the list is what is left of the array from index \<open>i\<close> on.
\<close>

fun weightedSumLoop :: "int list \<Rightarrow> nat \<Rightarrow> int \<Rightarrow> int" where
  "weightedSumLoop [] i weightedSum = weightedSum"
| "weightedSumLoop (x # xs) i weightedSum =
     weightedSumLoop xs (i + 1) (weightedSum + int (i + 1) * x)"

definition calculateGiniCoefficient :: "rounding \<Rightarrow> int list \<Rightarrow> real" where
  "calculateGiniCoefficient fl balances =
     (if length balances = 0 then 0
      else if length balances = 1 then 0
      else
        let sortedBalances = sort balances;
            total = foldl (\<lambda>sum balance. sum + balance) 0 sortedBalances
        in if total = 0 then 0
           else
             let weightedSum = weightedSumLoop sortedBalances 0 0;
                 n = int (length sortedBalances);
                 numerator = 2 * weightedSum;
                 denominator = n * total;
                 giniRatio = number_div fl (Number fl (numerator * 10000 sdiv denominator)) 10000;
                 adjustment = number_div fl (Number fl (n + 1)) (Number fl n);
                 gini = number_sub fl giniRatio adjustment
             in max 0 (min 1 gini))"

subsection \<open>Holder objects\<close>

text \<open>
  \<^verbatim>\<open>categorizeHolders\<close> copies the array it is given (\<^verbatim>\<open>[...balances]\<close>) but not the
  objects in it, and then assigns to a property of these objects. So the objects live in
  a store, and an array of holders is a list of references into the store.
\<close>

record TokenBalance =
  address :: string
  balance :: int
  percentage :: real

type_synonym ref = nat

type_synonym store = "ref \<Rightarrow> TokenBalance"

record HolderCategories =
  whales :: "ref list"
  dolphins :: "ref list"
  shrimp :: "ref list"
  totalSupply :: int
  holderCount :: nat

record ConcentrationMetrics =
  top1PercentShare :: real
  top10PercentShare :: real
  nakamotoCoefficient :: nat

text \<open>
  \<^verbatim>\<open>[...balances].sort(...)\<close> with the comparator that puts the larger balance first.
  \<^verbatim>\<open>Array.prototype.sort\<close> is stable, and so is \<^const>\<open>sort_key\<close>.
\<close>

definition sortDescending :: "store \<Rightarrow> ref list \<Rightarrow> ref list" where
  "sortDescending s balances = sort_key (\<lambda>holder. - balance (s holder)) balances"

text \<open>\<^verbatim>\<open>sorted.reduce((sum, holder) => sum + holder.balance, 0n)\<close>\<close>

definition sumBalances :: "store \<Rightarrow> ref list \<Rightarrow> int" where
  "sumBalances s holders = foldl (\<lambda>sum holder. sum + balance (s holder)) 0 holders"

text \<open>The \<^verbatim>\<open>forEach\<close> that assigns \<^verbatim>\<open>holder.percentage\<close>, one object after the other.\<close>

definition assignPercentages :: "rounding \<Rightarrow> int \<Rightarrow> ref list \<Rightarrow> store \<Rightarrow> store" where
  "assignPercentages fl supply holders s =
     foldl (\<lambda>s holder.
        s(holder := (s holder)\<lparr>percentage :=
            (if supply > 0
             then number_div fl (Number fl (balance (s holder) * 10000 sdiv supply)) 100
             else 0)\<rparr>))
       s holders"

text \<open>\<^verbatim>\<open>Math.ceil(sorted.length * 0.01)\<close>; the literal is the double nearest to \<open>1/100\<close>.\<close>

definition top1PercentIndex :: "rounding \<Rightarrow> nat \<Rightarrow> int" where
  "top1PercentIndex fl len = \<lceil>number_mul fl (real len) (fl (1 / 100))\<rceil>"

definition top10PercentIndex :: "rounding \<Rightarrow> nat \<Rightarrow> int" where
  "top10PercentIndex fl len = \<lceil>number_mul fl (real len) (fl (1 / 10))\<rceil>"

definition categorizeHolders :: "rounding \<Rightarrow> store \<Rightarrow> ref list \<Rightarrow> store \<times> HolderCategories" where
  "categorizeHolders fl s balances =
     (if length balances = 0 then
        (s, \<lparr>whales = [], dolphins = [], shrimp = [], totalSupply = 0, holderCount = 0\<rparr>)
      else
        let sorted = sortDescending s balances;
            total = sumBalances s sorted;
            s' = assignPercentages fl total sorted s
        in (s', \<lparr>whales = slice 0 (top1PercentIndex fl (length sorted)) sorted,
                 dolphins = slice (top1PercentIndex fl (length sorted))
                              (top10PercentIndex fl (length sorted)) sorted,
                 shrimp = slice_from (top10PercentIndex fl (length sorted)) sorted,
                 totalSupply = total,
                 holderCount = length sorted\<rparr>))"

subsection \<open>Concentration\<close>

text \<open>\<^verbatim>\<open>Math.max(1, Math.ceil(sorted.length * 0.01))\<close>\<close>

definition top1PercentCount :: "rounding \<Rightarrow> nat \<Rightarrow> int" where
  "top1PercentCount fl len = max 1 \<lceil>number_mul fl (real len) (fl (1 / 100))\<rceil>"

definition top10PercentCount :: "rounding \<Rightarrow> nat \<Rightarrow> int" where
  "top10PercentCount fl len = max 1 \<lceil>number_mul fl (real len) (fl (1 / 10))\<rceil>"

text \<open>
  The \<^verbatim>\<open>for ... of\<close> loop of the Nakamoto coefficient; it leaves at the first holder
  with whom the running balance exceeds the threshold.
\<close>

fun nakamotoLoop :: "store \<Rightarrow> int \<Rightarrow> ref list \<Rightarrow> int \<Rightarrow> nat \<Rightarrow> nat" where
  "nakamotoLoop s threshold [] cumulativeBalance count = count"
| "nakamotoLoop s threshold (holder # rest) cumulativeBalance count =
     (if cumulativeBalance + balance (s holder) > threshold then count + 1
      else nakamotoLoop s threshold rest (cumulativeBalance + balance (s holder)) (count + 1))"

definition calculateConcentrationMetrics :: "rounding \<Rightarrow> store \<Rightarrow> ref list \<Rightarrow> ConcentrationMetrics" where
  "calculateConcentrationMetrics fl s balances =
     (if length balances = 0 then
        \<lparr>top1PercentShare = 0, top10PercentShare = 0, nakamotoCoefficient = 0\<rparr>
      else
        let sorted = sortDescending s balances;
            total = sumBalances s sorted
        in if total = 0 then
             \<lparr>top1PercentShare = 0, top10PercentShare = 0, nakamotoCoefficient = 0\<rparr>
           else
             let top1PercentBalance = sumBalances s (slice 0 (top1PercentCount fl (length sorted)) sorted);
                 top10PercentBalance = sumBalances s (slice 0 (top10PercentCount fl (length sorted)) sorted);
                 threshold = total sdiv 2
             in \<lparr>top1PercentShare =
                   number_div fl (Number fl (top1PercentBalance * 10000 sdiv total)) 100,
                 top10PercentShare =
                   number_div fl (Number fl (top10PercentBalance * 10000 sdiv total)) 100,
                 nakamotoCoefficient = nakamotoLoop s threshold sorted 0 0\<rparr>)"

subsection \<open>Moving average\<close>

text \<open>
  \<open>windowSize\<close> defaults to \<open>10\<close> in the source. The result is \<^const>\<open>None\<close> where
  JavaScript divides \<open>0\<close> by \<open>0\<close>, which a negative window size can cause.
\<close>

definition calculateMovingAverageGini :: "rounding \<Rightarrow> real list \<Rightarrow> int \<Rightarrow> real option" where
  "calculateMovingAverageGini fl historicalGiniValues windowSize =
     (if length historicalGiniValues = 0 then Some 0
      else
        let recentValues = slice_from (- windowSize) historicalGiniValues;
            sum = foldl (\<lambda>total v. number_add fl total v) 0 recentValues
        in if length recentValues = 0 then None
           else Some (number_div fl sum (real (length recentValues))))"

section \<open>Concrete inputs\<close>

text \<open>
  Worlds, claimant lists and stores at which the theorems below are evaluated. In
  \<open>emptyBlockWorld\<close> the node is at height 800000 and answers every height with an empty
  array; in \<open>unavailableWorld\<close> every call of \<^verbatim>\<open>protorunesbyheight\<close> throws.
\<close>

definition emptyBlockWorld :: rpc_world where
  "emptyBlockWorld =
     \<lparr>getBlockchainInfo = Some 800000, protorunesByHeight = (\<lambda>height. ResultArray []), now = 0\<rparr>"

definition unavailableWorld :: rpc_world where
  "unavailableWorld =
     \<lparr>getBlockchainInfo = Some 800000, protorunesByHeight = (\<lambda>height. RpcThrows), now = 0\<rparr>"

definition emptyBlockSnapshot :: ParticipationData where
  "emptyBlockSnapshot =
     participationData emptyBlockWorld 800000 (getBlockClaimants emptyBlockWorld 800000)"

definition threeClaimants :: "ClaimantData list" where
  "threeClaimants =
     [\<lparr>ClaimantData.address = ''a'', ClaimantData.blockHeight = 800000, amount = 1666666666,
        transactionId = ''t1'', ClaimantData.timestamp = 1\<rparr>,
      \<lparr>ClaimantData.address = ''b'', ClaimantData.blockHeight = 800000, amount = 1666666666,
        transactionId = ''t2'', ClaimantData.timestamp = 1\<rparr>,
      \<lparr>ClaimantData.address = ''c'', ClaimantData.blockHeight = 800000, amount = 1666666666,
        transactionId = ''t3'', ClaimantData.timestamp = 1\<rparr>]"

definition treasuryWorld :: rpc_world where
  "treasuryWorld =
     \<lparr>getBlockchainInfo = Some 800000,
      protorunesByHeight = (\<lambda>height. ResultArray
        [\<lparr>mint_alkane_id = Some ''800000'', mint_address = ''treasury'',
          mint_amount = Some 3000000000, mint_txid = ''tx'', mint_timestamp = 1\<rparr>]),
      now = 0\<rparr>"

text \<open>Arithmetic without rounding error, the simplest instance of \<^const>\<open>double_rounding\<close>.\<close>

definition exact :: rounding where
  "exact x = x"

definition exampleStore :: store where
  "exampleStore =
     (\<lambda>holder. \<lparr>address = ''holder'', balance = (if holder = 0 then 25 else 75), percentage = 0\<rparr>)"

section \<open>Emission schedule: proofs\<close>

lemma HALVING_INTERVAL_pos: "0 < HALVING_INTERVAL" by (simp add: HALVING_INTERVAL_def)

lemma bigint_shr_0: "bigint_shr a 0 = a" by (simp add: bigint_shr_def)

lemma bigint_shr_nonneg: "0 \<le> a \<Longrightarrow> 0 \<le> bigint_shr a n"
  by (simp add: bigint_shr_def drop_bit_eq_div push_bit_eq_mult pos_imp_zdiv_nonneg_iff)

lemma sdiv_nonneg_eq_div: "0 \<le> a \<Longrightarrow> 0 \<le> b \<Longrightarrow> a sdiv b = a div (b::int)"
  by (simp add: signed_divide_int_def sgn_if)

lemma calculateBlockReward_nonneg: "0 \<le> calculateBlockReward h"
  by (simp add: calculateBlockReward_def Let_def bigint_shr_nonneg INITIAL_REWARD_def)

lemma calculateBlockReward_epoch0:
  "GENESIS_BLOCK \<le> h \<Longrightarrow> h < GENESIS_BLOCK + HALVING_INTERVAL \<Longrightarrow> calculateBlockReward h = INITIAL_REWARD"
  by (simp add: calculateBlockReward_def Let_def sdiv_nonneg_eq_div HALVING_INTERVAL_def bigint_shr_0)

lemma cumulativeEmissionLoop_genesis:
  assumes "GENESIS_BLOCK \<le> h"
  shows "cumulativeEmissionLoop h GENESIS_BLOCK 0 = min ((h + 1 - GENESIS_BLOCK) * INITIAL_REWARD) MAX_SUPPLY"
proof -
  have exit: "cumulativeEmissionLoop h (h + 1) t = t" for t
    by (subst cumulativeEmissionLoop.simps) simp
  have pos: "0 < MAX_SUPPLY"
    by (simp add: MAX_SUPPLY_def)
  have full: "MAX_SUPPLY < HALVING_INTERVAL * INITIAL_REWARD"
    by (simp add: MAX_SUPPLY_def INITIAL_REWARD_def HALVING_INTERVAL_def)
  show ?thesis
  proof (cases "GENESIS_BLOCK + HALVING_INTERVAL < h")
    case True
    then have "HALVING_INTERVAL * INITIAL_REWARD \<le> (h + 1 - GENESIS_BLOCK) * INITIAL_REWARD"
      by (intro mult_right_mono) (simp_all add: INITIAL_REWARD_def)
    with full have "min ((h + 1 - GENESIS_BLOCK) * INITIAL_REWARD) MAX_SUPPLY = MAX_SUPPLY"
      by simp
    moreover have "cumulativeEmissionLoop h GENESIS_BLOCK 0 = MAX_SUPPLY"
      using True assms pos full
      by (subst cumulativeEmissionLoop.simps) (simp add: Let_def bigint_shr_0)
    ultimately show ?thesis by simp
  next
    case False
    then have "cumulativeEmissionLoop h GENESIS_BLOCK 0 =
        (if MAX_SUPPLY < (h + 1 - GENESIS_BLOCK) * INITIAL_REWARD then MAX_SUPPLY
         else cumulativeEmissionLoop h (h + 1) ((h + 1 - GENESIS_BLOCK) * INITIAL_REWARD))"
      using assms pos
      by (subst cumulativeEmissionLoop.simps) (simp add: Let_def bigint_shr_0)
    then show ?thesis
      by (simp add: exit min_def)
  qed
qed

lemma calculateCumulativeEmission_closed:
  "calculateCumulativeEmission h =
     (if h < GENESIS_BLOCK then 0 else min ((h + 1 - GENESIS_BLOCK) * INITIAL_REWARD) MAX_SUPPLY)"
  by (simp add: calculateCumulativeEmission_def cumulativeEmissionLoop_genesis)

lemma sum_rewards_epoch0:
  "GENESIS_BLOCK \<le> a \<Longrightarrow> b < GENESIS_BLOCK + HALVING_INTERVAL \<Longrightarrow>
     sum_list (map calculateBlockReward [a..b]) = (if a \<le> b then (b + 1 - a) * INITIAL_REWARD else 0)"
proof (induction a b rule: upto.induct)
  case (1 i j)
  show ?case
  proof (cases "i \<le> j")
    case True
    then have "sum_list (map calculateBlockReward [i..j]) =
        calculateBlockReward i + sum_list (map calculateBlockReward [i + 1..j])"
      by (simp add: upto_rec1)
    also have "calculateBlockReward i = INITIAL_REWARD"
      using True 1(2,3) by (intro calculateBlockReward_epoch0) simp_all
    also have "sum_list (map calculateBlockReward [i + 1..j]) =
        (if i + 1 \<le> j then (j + 1 - (i + 1)) * INITIAL_REWARD else 0)"
      using True 1 by simp
    finally show ?thesis using True
      by (simp add: algebra_simps)
  next
    case False
    then show ?thesis by simp
  qed
qed

lemma sum_rewards_nonneg: "0 \<le> sum_list (map calculateBlockReward hs)"
  by (induction hs) (simp_all add: calculateBlockReward_nonneg)

lemma sum_rewards_beyond_epoch0:
  assumes "GENESIS_BLOCK + HALVING_INTERVAL \<le> h"
  shows "HALVING_INTERVAL * INITIAL_REWARD \<le> sum_list (map calculateBlockReward [GENESIS_BLOCK..h])"
proof -
  let ?m = "GENESIS_BLOCK + HALVING_INTERVAL - 1"
  have "[GENESIS_BLOCK..h] = [GENESIS_BLOCK..?m] @ [?m + 1..h]"
    using assms HALVING_INTERVAL_pos by (intro upto_split2) simp_all
  then have "sum_list (map calculateBlockReward [GENESIS_BLOCK..h]) =
      sum_list (map calculateBlockReward [GENESIS_BLOCK..?m]) + sum_list (map calculateBlockReward [?m + 1..h])"
    by simp
  moreover have "sum_list (map calculateBlockReward [GENESIS_BLOCK..?m]) = HALVING_INTERVAL * INITIAL_REWARD"
    using HALVING_INTERVAL_pos by (subst sum_rewards_epoch0) simp_all
  ultimately show ?thesis
    using sum_rewards_nonneg [of "[?m + 1..h]"] by simp
qed

lemma naiveCumulativeEmission_closed:
  assumes "GENESIS_BLOCK \<le> h"
  shows "naiveCumulativeEmission h = min ((h + 1 - GENESIS_BLOCK) * INITIAL_REWARD) MAX_SUPPLY"
proof (cases "h < GENESIS_BLOCK + HALVING_INTERVAL")
  case True
  with assms show ?thesis
    by (simp add: naiveCumulativeEmission_def sum_rewards_epoch0)
next
  case False
  have full: "MAX_SUPPLY < HALVING_INTERVAL * INITIAL_REWARD"
    by (simp add: MAX_SUPPLY_def INITIAL_REWARD_def HALVING_INTERVAL_def)
  from False have "HALVING_INTERVAL * INITIAL_REWARD \<le> (h + 1 - GENESIS_BLOCK) * INITIAL_REWARD"
    by (intro mult_right_mono) (simp_all add: INITIAL_REWARD_def)
  moreover from False
  have "HALVING_INTERVAL * INITIAL_REWARD \<le> sum_list (map calculateBlockReward [GENESIS_BLOCK..h])"
    by (intro sum_rewards_beyond_epoch0) simp
  ultimately show ?thesis using full
    by (simp add: naiveCumulativeEmission_def)
qed

lemma cumulativeEmissionLoop_le_MAX_SUPPLY:
  "t \<le> MAX_SUPPLY \<Longrightarrow> cumulativeEmissionLoop c b t \<le> MAX_SUPPLY"
proof (induction c b t rule: cumulativeEmissionLoop.induct)
  case (1 currentBlock blockHeight totalEmission)
  show ?case
    using 1
    by (subst cumulativeEmissionLoop.simps) (simp add: Let_def)
qed

text \<open>
  Claim C2. For every height from genesis on, the iteration over epoch boundaries of
  \<^const>\<open>calculateCumulativeEmission\<close> returns what the naive reference returns: the sum
  of \<^const>\<open>calculateBlockReward\<close> over all heights from genesis to that height, clamped
  to the maximum supply. With the constants of the source the maximum supply is reached
  within the first epoch, after 31250 blocks; both sides are the closed form of
  \<open>calculateCumulativeEmission_closed\<close>.
\<close>

theorem cumulative_emission_refines_naive_sum:
  "GENESIS_BLOCK \<le> h \<Longrightarrow> calculateCumulativeEmission h = naiveCumulativeEmission h"
  by (simp add: calculateCumulativeEmission_closed naiveCumulativeEmission_closed)

theorem cumulative_emission_refines_naive_sum_witness:
  "GENESIS_BLOCK \<le> 800002 \<and>
   calculateCumulativeEmission 800002 = naiveCumulativeEmission 800002 \<and>
   calculateCumulativeEmission 800002 = 15000000000 \<and>
   GENESIS_BLOCK \<le> 1010000 \<and>
   calculateCumulativeEmission 1010000 = naiveCumulativeEmission 1010000 \<and>
   calculateCumulativeEmission 1010000 = 156250000000000"
  using cumulative_emission_refines_naive_sum [of 800002]
    cumulative_emission_refines_naive_sum [of 1010000]
  by (simp add: GENESIS_BLOCK_def calculateCumulativeEmission_closed MAX_SUPPLY_def INITIAL_REWARD_def)

text \<open>
  Claim C5. The cumulative emission is non-decreasing in the height, and it never exceeds
  the maximum supply. The bound is the invariant of the loop
  (\<open>cumulativeEmissionLoop_le_MAX_SUPPLY\<close>); of the constants it uses only that the
  maximum supply is not negative.
\<close>

theorem cumulative_emission_monotone_bounded:
  "h1 \<le> h2 \<Longrightarrow>
     calculateCumulativeEmission h1 \<le> calculateCumulativeEmission h2 \<and>
     calculateCumulativeEmission h1 \<le> MAX_SUPPLY"
proof
  assume le: "h1 \<le> h2"
  have "0 \<le> INITIAL_REWARD" "0 \<le> MAX_SUPPLY"
    by (simp_all add: INITIAL_REWARD_def MAX_SUPPLY_def)
  moreover from le have "GENESIS_BLOCK \<le> h1 \<Longrightarrow>
      (h1 + 1 - GENESIS_BLOCK) * INITIAL_REWARD \<le> (h2 + 1 - GENESIS_BLOCK) * INITIAL_REWARD"
    by (intro mult_right_mono) (simp_all add: INITIAL_REWARD_def)
  ultimately show "calculateCumulativeEmission h1 \<le> calculateCumulativeEmission h2"
    using le by (auto simp add: calculateCumulativeEmission_closed min_def)
next
  have "0 \<le> MAX_SUPPLY"
    by (simp add: MAX_SUPPLY_def)
  then show "calculateCumulativeEmission h1 \<le> MAX_SUPPLY"
    by (simp add: calculateCumulativeEmission_def cumulativeEmissionLoop_le_MAX_SUPPLY)
qed

theorem cumulative_emission_monotone_bounded_witness:
  "(800010::int) \<le> 1010000 \<and>
   calculateCumulativeEmission 800010 \<le> calculateCumulativeEmission 1010000 \<and>
   calculateCumulativeEmission 800010 \<le> MAX_SUPPLY \<and>
   calculateCumulativeEmission 800010 = 55000000000 \<and>
   calculateCumulativeEmission 1010000 = 156250000000000"
  using cumulative_emission_monotone_bounded [of 800010 1010000]
  by (simp add: GENESIS_BLOCK_def calculateCumulativeEmission_closed MAX_SUPPLY_def INITIAL_REWARD_def)

section \<open>MintTracker: proofs\<close>

lemma trackerBlockReward_nonneg: "0 \<le> trackerBlockReward h"
  by (simp add: trackerBlockReward_def Let_def bigint_shr_nonneg INITIAL_REWARD_def)

lemma trackerBlockReward_from_genesis:
  "GENESIS_BLOCK \<le> h \<Longrightarrow> trackerBlockReward h = calculateBlockReward h"
  by (simp add: trackerBlockReward_def calculateBlockReward_def)

lemma trendsLoop_blocks:
  "st_blocks (trendsLoop w e h st) =
     st_blocks st @ map (\<lambda>h. participationData w h (getBlockClaimants w h)) [h..e]"
proof (induction w e h st rule: trendsLoop.induct)
  case (1 w endBlock height st)
  show ?case
  proof (cases "height \<le> endBlock")
    case True
    then show ?thesis
      using 1 [OF True refl refl refl]
      by (subst trendsLoop.simps) (simp add: Let_def upto_rec1 [of height endBlock])
  next
    case False
    then show ?thesis
      by (subst trendsLoop.simps) simp
  qed
qed

lemma getParticipationTrends_blocks:
  "blocks (getParticipationTrends fl w s e) =
     map (\<lambda>h. participationData w h (getBlockClaimants w h)) [s..e]"
  by (simp add: getParticipationTrends_def Let_def trendsLoop_blocks)

lemma participationData_totalDistributed:
  "totalDistributed (participationData w h cs) = trackerBlockReward h"
  by (simp add: participationData_def Let_def)

lemma trackerBlockReward_799999: "trackerBlockReward 799999 = 5000000000"
  by (simp add: trackerBlockReward_def GENESIS_BLOCK_def HALVING_INTERVAL_def INITIAL_REWARD_def
      signed_divide_int_def bigint_shr_def)

lemma calculateRewardPerClaimant_floor:
  "0 \<le> R \<Longrightarrow> 0 \<le> k \<Longrightarrow> calculateRewardPerClaimant R k = (if k = 0 then 0 else R div k)"
  by (simp add: calculateRewardPerClaimant_def sdiv_nonneg_eq_div)

lemma participationData_rewardPerClaimant:
  "rewardPerClaimant (participationData w h cs) =
     (if cs = [] then 0 else trackerBlockReward h div int (length cs))"
  by (simp add: participationData_def Let_def calculateRewardPerClaimant_floor trackerBlockReward_nonneg)

lemma participationData_totalClaimants:
  "totalClaimants (participationData w h cs) = length cs"
  by (simp add: participationData_def Let_def)

lemma trackerBlockReward_800000: "trackerBlockReward 800000 = 5000000000"
  by (simp add: trackerBlockReward_def GENESIS_BLOCK_def HALVING_INTERVAL_def INITIAL_REWARD_def
      bigint_shr_def)

text \<open>
  Claim C1. The snapshot's \<open>totalDistributed\<close> is claimed to be
  \<^const>\<open>calculateBlockReward\<close> of its height at every height, and so \<open>0\<close> before genesis.
  From genesis on it is (\<open>trackerBlockReward_from_genesis\<close>). At height 799999, one
  block before genesis, \<^const>\<open>calculateBlockReward\<close> is \<open>0\<close> but both
  \<^const>\<open>getParticipationTrends\<close> and \<^const>\<open>getCurrentBlockParticipation\<close> report the
  full initial reward: the tracker repeats the formula without the test for genesis.
\<close>

theorem tracker_reward_before_genesis:
  "map totalDistributed (blocks (getParticipationTrends fl w 799999 799999)) = [5000000000] \<and>
   map_option totalDistributed (getCurrentBlockParticipation (w\<lparr>getBlockchainInfo := Some 799999\<rparr>))
     = Some 5000000000 \<and>
   calculateBlockReward 799999 = 0"
  by (simp add: getParticipationTrends_blocks participationData_totalDistributed
      getCurrentBlockParticipation_def trackerBlockReward_799999 calculateBlockReward_def
      GENESIS_BLOCK_def upto_rec1 [of 799999 799999] Let_def)

text \<open>
  Claim C3, as stated, bounds the dust of every snapshot by its number of claimants. For
  a block without claimants this fails: nothing is handed out, the whole reward is dust,
  and it is not less than \<open>0\<close>.
\<close>

theorem dust_of_empty_block_counterexample:
  "getCurrentBlockParticipation emptyBlockWorld = Some emptyBlockSnapshot \<and>
   totalClaimants emptyBlockSnapshot = 0 \<and>
   \<not> (totalDistributed emptyBlockSnapshot
        - rewardPerClaimant emptyBlockSnapshot * int (totalClaimants emptyBlockSnapshot)
      < int (totalClaimants emptyBlockSnapshot))"
  by (simp add: getCurrentBlockParticipation_def emptyBlockSnapshot_def emptyBlockWorld_def
      getBlockClaimants_def participationData_def Let_def trackerBlockReward_800000)

text \<open>
  Claim C3, amended. For a reward \<open>R \<ge> 0\<close> and a count \<open>k \<ge> 0\<close>,
  \<^const>\<open>calculateRewardPerClaimant\<close> is \<open>\<lfloor>R / k\<rfloor>\<close> for \<open>k > 0\<close> and \<open>0\<close> for \<open>k = 0\<close>. In
  every snapshot the reward per claimant is that quotient of \<open>totalDistributed\<close>, the
  claimants together receive no more than \<open>totalDistributed\<close>, and, when there is at least
  one claimant, the dust is less than the number of claimants.
\<close>

theorem equal_split_floor_and_dust:
  "(0 \<le> R \<and> 0 \<le> k \<longrightarrow>
      calculateRewardPerClaimant R k = (if k = 0 then 0 else R div k)) \<and>
   totalClaimants (participationData w h cs) = length cs \<and>
   rewardPerClaimant (participationData w h cs) =
     (if cs = [] then 0 else totalDistributed (participationData w h cs) div int (length cs)) \<and>
   rewardPerClaimant (participationData w h cs) * int (length cs)
     \<le> totalDistributed (participationData w h cs) \<and>
   (cs \<noteq> [] \<longrightarrow>
      totalDistributed (participationData w h cs)
        - rewardPerClaimant (participationData w h cs) * int (length cs) < int (length cs))"
proof -
  let ?T = "trackerBlockReward h" and ?k = "int (length cs)"
  have dust: "?T div ?k * ?k \<le> ?T \<and> ?T - ?T div ?k * ?k < ?k" if "cs \<noteq> []"
  proof -
    from that have "0 < ?k" by simp
    then have "0 \<le> ?T mod ?k" "?T mod ?k < ?k"
      by (rule pos_mod_sign, rule pos_mod_bound)
    moreover have "?T - ?T div ?k * ?k = ?T mod ?k"
      by (rule minus_div_mult_eq_mod)
    ultimately show ?thesis by linarith
  qed
  show ?thesis
    using trackerBlockReward_nonneg [of h] dust
    by (simp add: calculateRewardPerClaimant_floor participationData_rewardPerClaimant
        participationData_totalDistributed participationData_totalClaimants)
qed

theorem equal_split_floor_and_dust_witness:
  "((0::int) \<le> 10 \<and> (0::int) \<le> 3) \<and>
   calculateRewardPerClaimant 10 3 = 3 \<and>
   threeClaimants \<noteq> [] \<and>
   totalDistributed (participationData emptyBlockWorld 800000 threeClaimants) = 5000000000 \<and>
   rewardPerClaimant (participationData emptyBlockWorld 800000 threeClaimants) = 1666666666 \<and>
   totalDistributed (participationData emptyBlockWorld 800000 threeClaimants)
     - rewardPerClaimant (participationData emptyBlockWorld 800000 threeClaimants) * 3 = 2"
  using equal_split_floor_and_dust [of 10 3 emptyBlockWorld 800000 threeClaimants]
  by (simp add: threeClaimants_def participationData_totalDistributed trackerBlockReward_800000)

text \<open>
  Claim C4, as stated, promises a distinct outcome for a height whose claimant lookup
  fails, and never a snapshot with zero participants. In \<open>unavailableWorld\<close> the lookup
  throws, and the tracker returns exactly such a snapshot.
\<close>

theorem failed_lookup_gives_zero_participants_counterexample:
  "protorunesByHeight unavailableWorld 800000 = RpcThrows \<and>
   getCurrentBlockParticipation unavailableWorld =
     Some \<lparr>blockHeight = 800000, totalClaimants = 0, rewardPerClaimant = 0,
           totalDistributed = 5000000000, timestamp = 0\<rparr>"
  by (simp add: getCurrentBlockParticipation_def unavailableWorld_def getBlockClaimants_def
      participationData_def Let_def trackerBlockReward_800000)

text \<open>
  Claim C4, amended. When the claimant lookup for a height throws, or answers without a
  result array, \<^const>\<open>getBlockClaimants\<close> returns the empty list, and the snapshot for that
  height, from \<^const>\<open>getCurrentBlockParticipation\<close> and from
  \<^const>\<open>getParticipationTrends\<close> alike, has zero claimants and zero reward per claimant: it
  is the snapshot of a height whose lookup succeeds and finds no claimant.
\<close>

theorem failed_lookup_is_empty_block:
  assumes "protorunesByHeight w h = RpcThrows \<or> protorunesByHeight w h = NoResultArray"
  shows "getBlockClaimants w h = [] \<and>
     getCurrentBlockParticipation (w\<lparr>getBlockchainInfo := Some h\<rparr>) =
       Some \<lparr>blockHeight = h, totalClaimants = 0, rewardPerClaimant = 0,
             totalDistributed = trackerBlockReward h, timestamp = now w\<rparr> \<and>
     getCurrentBlockParticipation (w\<lparr>getBlockchainInfo := Some h\<rparr>) =
       getCurrentBlockParticipation
         (w\<lparr>getBlockchainInfo := Some h,
            protorunesByHeight := (protorunesByHeight w)(h := ResultArray [])\<rparr>) \<and>
     blocks (getParticipationTrends fl w h h) =
       [\<lparr>blockHeight = h, totalClaimants = 0, rewardPerClaimant = 0,
         totalDistributed = trackerBlockReward h, timestamp = now w\<rparr>]"
  using assms
  by (auto simp add: getCurrentBlockParticipation_def getBlockClaimants_def participationData_def
      Let_def getParticipationTrends_blocks upto_rec1 [of h h])

theorem failed_lookup_is_empty_block_witness:
  "(protorunesByHeight unavailableWorld 800000 = RpcThrows \<or>
    protorunesByHeight unavailableWorld 800000 = NoResultArray) \<and>
   getBlockClaimants unavailableWorld 800000 = [] \<and>
   getCurrentBlockParticipation (unavailableWorld\<lparr>getBlockchainInfo := Some 800000\<rparr>) =
     Some \<lparr>blockHeight = 800000, totalClaimants = 0, rewardPerClaimant = 0,
           totalDistributed = 5000000000, timestamp = 0\<rparr>"
  using failed_lookup_is_empty_block [of unavailableWorld 800000]
  by (simp add: unavailableWorld_def trackerBlockReward_800000)

text \<open>
  What \<^const>\<open>getTreasuryParticipation\<close> returns at every height: the smaller of the
  treasury's claim (the amount of the first claimant with the treasury address, \<open>0\<close> when
  there is none) and half the reward that the tracker itself computes for the height.
\<close>

lemma getTreasuryParticipation_min:
  "getTreasuryParticipation w T h =
     min (case find (\<lambda>c. ClaimantData.address c = T) (getBlockClaimants w h) of
            None \<Rightarrow> 0 | Some treasuryClaim \<Rightarrow> amount treasuryClaim)
         (trackerBlockReward h div 2)"
proof -
  have "trackerBlockReward h sdiv 2 = trackerBlockReward h div 2"
    using trackerBlockReward_nonneg [of h] by (simp add: sdiv_nonneg_eq_div)
  moreover have "0 \<le> trackerBlockReward h div 2"
    using trackerBlockReward_nonneg [of h] by simp
  ultimately show ?thesis
    by (simp add: getTreasuryParticipation_def Let_def min_def split: option.splits)
qed

text \<open>
  Claim C8. The treasury contribution is claimed to be the smaller of the treasury's claim
  and half of the block reward at every height, and so never more than half the block
  reward. From genesis on it is (\<open>getTreasuryParticipation_min\<close> with
  \<open>trackerBlockReward_from_genesis\<close>). At height 799999, one block before genesis, the
  block reward \<^const>\<open>calculateBlockReward\<close> is \<open>0\<close>, but for a treasury claim of
  3000000000 the tracker reports 2500000000: the cap is computed from the formula
  repeated without the test for genesis.
\<close>

theorem treasury_cap_before_genesis:
  "getBlockClaimants treasuryWorld 799999 =
     [\<lparr>ClaimantData.address = ''treasury'', ClaimantData.blockHeight = 799999,
       amount = 3000000000, transactionId = ''tx'', ClaimantData.timestamp = 1\<rparr>] \<and>
   getTreasuryParticipation treasuryWorld ''treasury'' 799999 = 2500000000 \<and>
   calculateBlockReward 799999 = 0 \<and>
   min 3000000000 (calculateBlockReward 799999 div 2) = 0 \<and>
   \<not> getTreasuryParticipation treasuryWorld ''treasury'' 799999 \<le> calculateBlockReward 799999 div 2"
proof -
  have claimants: "getBlockClaimants treasuryWorld 799999 =
     [\<lparr>ClaimantData.address = ''treasury'', ClaimantData.blockHeight = 799999,
       amount = 3000000000, transactionId = ''tx'', ClaimantData.timestamp = 1\<rparr>]"
    by (simp add: getBlockClaimants_def treasuryWorld_def GENESIS_BLOCK_toString_def)
  have reward: "calculateBlockReward 799999 = 0"
    by (simp add: calculateBlockReward_def GENESIS_BLOCK_def)
  have "getTreasuryParticipation treasuryWorld ''treasury'' 799999 = 2500000000"
    by (simp add: getTreasuryParticipation_def claimants trackerBlockReward_799999
        signed_divide_int_def)
  with claimants reward show ?thesis
    by simp
qed

section \<open>DistributionMetrics: proofs\<close>

lemma foldl_add_sum_list:
  "foldl (\<lambda>sum x. sum + g x) a xs = a + sum_list (map g xs)" for a :: int
  by (induction xs arbitrary: a) simp_all

lemma sum_list_insort_key:
  "sum_list (map g (insort_key f x xs)) = g x + sum_list (map g xs)" for g :: "'a \<Rightarrow> int"
  by (induction xs) simp_all

lemma sum_list_sort_key:
  "sum_list (map g (sort_key f xs)) = sum_list (map g xs)" for g :: "'a \<Rightarrow> int"
  by (induction xs) (simp_all add: sum_list_insort_key)

lemma sumBalances_sortDescending:
  "sumBalances s (sortDescending s balances) = sumBalances s balances"
  by (simp add: sumBalances_def sortDescending_def foldl_add_sum_list sum_list_sort_key)

lemma assignPercentages_apply:
  "assignPercentages fl supply holders s r =
     (if r \<in> set holders
      then (s r)\<lparr>percentage :=
             (if supply > 0
              then number_div fl (Number fl (balance (s r) * 10000 sdiv supply)) 100
              else 0)\<rparr>
      else s r)"
  unfolding assignPercentages_def
  by (induction holders arbitrary: s) auto

lemma set_sortDescending: "set (sortDescending s balances) = set balances"
  by (simp add: sortDescending_def)

lemma double_rounding_exact: "double_rounding exact"
  by (simp add: double_rounding_def exact_def)

lemma double_rounding_mono: "double_rounding fl \<Longrightarrow> x \<le> y \<Longrightarrow> fl x \<le> fl y"
  by (simp add: double_rounding_def)

lemma double_rounding_128:
  assumes "double_rounding fl"
  shows "fl (1 / 128) = 1 / 128"
  using assms [unfolded double_rounding_def, THEN conjunct2, rule_format, of 1 "- 7"]
  by (simp add: power_int_minus)

lemma top1PercentIndex_pos:
  assumes "double_rounding fl" and "0 < len"
  shows "1 \<le> top1PercentIndex fl len"
proof -
  have "fl (1 / 128) \<le> fl (1 / 100)"
    by (rule double_rounding_mono [OF assms(1)]) simp
  then have c: "1 / 128 \<le> fl (1 / 100)"
    by (simp add: double_rounding_128 [OF assms(1)])
  have "0 \<le> fl (1 / 100)" "1 \<le> real len"
    using assms(2) c by simp_all
  then have "1 * fl (1 / 100) \<le> real len * fl (1 / 100)"
    by (rule mult_right_mono [rotated])
  with c have "1 / 128 \<le> real len * fl (1 / 100)"
    by linarith
  then have "fl (1 / 128) \<le> fl (real len * fl (1 / 100))"
    by (rule double_rounding_mono [OF assms(1)])
  then have "0 < fl (real len * fl (1 / 100))"
    by (simp add: double_rounding_128 [OF assms(1)])
  then have "0 < \<lceil>fl (real len * fl (1 / 100))\<rceil>"
    by (simp only: zero_less_ceiling)
  then show ?thesis
    unfolding top1PercentIndex_def number_mul_def by linarith
qed

lemma double_rounding_int:
  assumes "double_rounding fl" and "\<bar>m\<bar> < 2 ^ 53"
  shows "fl (of_int m) = of_int m"
  using assms(1) [unfolded double_rounding_def, THEN conjunct2, rule_format, of m 0] assms(2)
  by simp

lemma slice_0: "0 \<le> k \<Longrightarrow> slice 0 k xs = take (nat k) xs"
  by (simp add: slice_def Let_def min_def)

lemma length_sortDescending: "length (sortDescending s balances) = length balances"
  by (simp add: sortDescending_def)

lemma weightedSumLoop_replicate:
  "2 * weightedSumLoop (replicate n x) i acc = 2 * acc + x * (int n * (2 * int i + int n + 1))"
  by (induction n arbitrary: i acc) (simp_all add: algebra_simps)

lemma foldl_add_replicate:
  "foldl (\<lambda>sum balance. sum + balance) 0 (replicate n x) = int n * x"
  using foldl_add_sum_list [of "\<lambda>b. b" 0 "replicate n x"]
  by (simp add: sum_list_replicate)

lemma sort_replicate: "sort (replicate n x) = replicate n x" for x :: int
  by (simp add: sorted_sort_id)

lemma fixed_point_ratio_replicate:
  assumes "0 < x" and "0 < n"
  shows "(2 * weightedSumLoop (replicate n x) 0 0) * 10000 sdiv (int n * (int n * x))
     = ((int n + 1) * 10000) div int n"
proof -
  have "2 * weightedSumLoop (replicate n x) 0 0 = x * (int n * (int n + 1))"
    by (simp add: weightedSumLoop_replicate)
  then have "(2 * weightedSumLoop (replicate n x) 0 0) * 10000 = ((int n + 1) * 10000) * (int n * x)"
    by (simp add: algebra_simps)
  moreover have "((int n + 1) * 10000) * (int n * x) sdiv (int n * (int n * x))
      = ((int n + 1) * 10000) * (int n * x) div (int n * (int n * x))"
    using assms by (intro sdiv_nonneg_eq_div) simp_all
  moreover have "int n * x \<noteq> 0"
    using assms by simp
  then have "((int n + 1) * 10000) * (int n * x) div (int n * (int n * x))
      = ((int n + 1) * 10000) div int n"
    by (rule div_mult_mult2)
  ultimately show ?thesis
    by (simp only:)
qed

lemma gini_replicate_unfold:
  assumes "0 < x" and "2 \<le> n"
  shows "calculateGiniCoefficient fl (replicate n x) =
     max 0 (min 1 (number_sub fl
        (number_div fl (Number fl (((int n + 1) * 10000) div int n)) 10000)
        (number_div fl (Number fl (int n + 1)) (Number fl (int n)))))"
proof -
  have n: "0 < n" "(n = 0) = False" "(n = 1) = False"
    using assms by simp_all
  have t: "(int n * x = 0) = False"
    using assms by simp
  note q = fixed_point_ratio_replicate [OF assms(1) n(1)]
  show ?thesis
    by (simp only: calculateGiniCoefficient_def sort_replicate foldl_add_replicate Let_def
        length_replicate n t q if_False)
qed

lemma gini_ratio_le_adjustment:
  assumes fl: "double_rounding fl" and n: "2 \<le> n"
  shows "number_div fl (Number fl (((int n + 1) * 10000) div int n)) 10000
     \<le> number_div fl (Number fl (int n + 1)) (Number fl (int n))"
proof -
  let ?q = "((int n + 1) * 10000) div int n"
  have q_eq: "?q = 10000 + 10000 div int n"
    using n by simp
  have "0 \<le> (10000::int) div int n" "(10000::int) div int n \<le> 10000"
    using n by (simp_all add: pos_imp_zdiv_nonneg_iff int_div_le_self)
  then have "\<bar>?q\<bar> < 2 ^ 53"
    unfolding q_eq by simp
  then have q: "Number fl ?q = of_int ?q"
    unfolding Number_def by (rule double_rounding_int [OF fl])
  show ?thesis
  proof (cases "n \<le> 10000")
    case True
    then have "\<bar>int n + 1\<bar> < 2 ^ 53" "\<bar>int n\<bar> < 2 ^ 53"
      by simp_all
    then have e: "Number fl (int n + 1) = of_int (int n + 1)" "Number fl (int n) = of_int (int n)"
      unfolding Number_def by (simp_all only: double_rounding_int [OF fl])
    have "real_of_int ?q \<le> real_of_int ((int n + 1) * 10000) / real_of_int (int n)"
      by (rule real_of_int_div4)
    then have "real_of_int ?q / 10000 \<le> real_of_int (int n + 1) / real_of_int (int n)"
      by (simp add: field_simps)
    then show ?thesis
      unfolding number_div_def q e by (rule double_rounding_mono [OF fl])
  next
    case False
    then have "?q = 10000"
      unfolding q_eq by simp
    then have ratio: "number_div fl (Number fl ?q) 10000 = fl 1"
      unfolding q number_div_def by simp
    have one: "fl 1 = 1"
      using double_rounding_int [OF fl, of 1] by simp
    have "(1::real) \<le> of_int (int n)"
      using n by simp
    then have "fl 1 \<le> fl (of_int (int n))"
      by (rule double_rounding_mono [OF fl])
    then have pos: "0 < fl (of_int (int n))"
      unfolding one by simp
    have "fl (of_int (int n)) \<le> fl (of_int (int n + 1))"
      by (rule double_rounding_mono [OF fl]) simp
    with pos have "1 \<le> fl (of_int (int n + 1)) / fl (of_int (int n))"
      by (simp only: le_divide_eq_1_pos)
    then have "fl 1 \<le> number_div fl (Number fl (int n + 1)) (Number fl (int n))"
      unfolding number_div_def Number_def by (rule double_rounding_mono [OF fl])
    then show ?thesis
      by (simp only: ratio)
  qed
qed

lemma gini_replicate_zero:
  assumes fl: "double_rounding fl" and "0 \<le> x"
  shows "calculateGiniCoefficient fl (replicate n x) = 0"
proof -
  consider "n \<le> 1" | "2 \<le> n" "x = 0" | "2 \<le> n" "0 < x"
    using assms(2) by linarith
  then show ?thesis
  proof cases
    case 1
    then have "n = 0 \<or> n = 1" by linarith
    then show ?thesis
      by (auto simp add: calculateGiniCoefficient_def)
  next
    case 2
    then show ?thesis
      by (simp add: calculateGiniCoefficient_def sort_replicate foldl_add_replicate Let_def)
  next
    case 3
    let ?r = "number_div fl (Number fl (((int n + 1) * 10000) div int n)) 10000"
    let ?a = "number_div fl (Number fl (int n + 1)) (Number fl (int n))"
    have "?r - ?a \<le> 0"
      using gini_ratio_le_adjustment [OF fl 3(1)] by simp
    then have "fl (?r - ?a) \<le> fl 0"
      by (rule double_rounding_mono [OF fl])
    moreover have "fl 0 = 0"
      using double_rounding_int [OF fl, of 0] by simp
    ultimately have "number_sub fl ?r ?a \<le> 0"
      unfolding number_sub_def by simp
    then show ?thesis
      unfolding gini_replicate_unfold [OF 3(2,1)] by simp
  qed
qed

lemma gini_in_unit_interval:
  "0 \<le> calculateGiniCoefficient fl balances \<and> calculateGiniCoefficient fl balances \<le> 1"
  by (simp add: calculateGiniCoefficient_def Let_def)

text \<open>
  Claim C6. For every rounding that behaves like the rounding of doubles, the Gini
  coefficient of any number of copies of one non-negative balance is exactly \<open>0\<close>: the
  truncated fixed-point ratio never exceeds the adjustment, so the difference is not
  positive and the clamp returns \<open>0\<close>. For every list of balances and every rounding
  whatsoever, the coefficient lies between \<open>0\<close> and \<open>1\<close>.
\<close>

theorem gini_of_equal_balances_is_zero:
  assumes "double_rounding fl" and "0 \<le> x"
  shows "calculateGiniCoefficient fl (replicate n x) = 0 \<and>
     0 \<le> calculateGiniCoefficient fl balances \<and> calculateGiniCoefficient fl balances \<le> 1"
  using gini_replicate_zero [OF assms] gini_in_unit_interval [of fl balances] by simp

theorem gini_of_equal_balances_is_zero_witness:
  "double_rounding exact \<and> (0::int) \<le> 100 \<and>
   calculateGiniCoefficient exact (replicate 4 100) = 0 \<and>
   calculateGiniCoefficient exact [1, 1, 1, 97] = 18 / 25 \<and>
   0 \<le> calculateGiniCoefficient exact [1, 1, 1, 97] \<and>
   calculateGiniCoefficient exact [1, 1, 1, 97] \<le> 1"
proof -
  have "calculateGiniCoefficient exact [1, 1, 1, 97] = 18 / 25"
    by code_simp
  then show ?thesis
    using gini_of_equal_balances_is_zero [of exact 100 4 "[1, 1, 1, 97]"] double_rounding_exact
    by simp
qed

text \<open>
  Claim C7. For every non-empty list of holders, the bracket of
  \<^const>\<open>categorizeHolders\<close> and the bracket of \<^const>\<open>calculateConcentrationMetrics\<close> have
  the same size, the whales are exactly the holders at the head of the sorted list that
  the top-1% share sums, there is at least one of them, and (where the share is computed
  at all, which needs a total supply other than \<open>0\<close>) the share is the share of the whales'
  balances. For the empty list there is no whale, no holder is summed and the share is
  \<open>0\<close>.
\<close>

theorem whales_are_the_top1_percent_bracket:
  assumes "double_rounding fl" and "balances \<noteq> []"
  shows "whales (snd (categorizeHolders fl s [])) = [] \<and>
     top1PercentShare (calculateConcentrationMetrics fl s []) = 0 \<and>
     top1PercentIndex fl (length balances) = top1PercentCount fl (length balances) \<and>
     whales (snd (categorizeHolders fl s balances)) =
       slice 0 (top1PercentCount fl (length balances)) (sortDescending s balances) \<and>
     1 \<le> length (whales (snd (categorizeHolders fl s balances))) \<and>
     (sumBalances s balances \<noteq> 0 \<longrightarrow>
        top1PercentShare (calculateConcentrationMetrics fl s balances) =
          number_div fl
            (Number fl (sumBalances s (whales (snd (categorizeHolders fl s balances))) * 10000
               sdiv sumBalances s balances)) 100)"
proof -
  from assms(2) have len: "0 < length balances" by simp
  have pos: "1 \<le> top1PercentIndex fl (length balances)"
    using assms(1) len by (rule top1PercentIndex_pos)
  then have eq: "top1PercentCount fl (length balances) = top1PercentIndex fl (length balances)"
    by (simp add: top1PercentCount_def top1PercentIndex_def)
  have w: "whales (snd (categorizeHolders fl s balances)) =
      slice 0 (top1PercentIndex fl (length balances)) (sortDescending s balances)"
    using assms(2) by (simp add: categorizeHolders_def Let_def length_sortDescending)
  have "1 \<le> nat (top1PercentIndex fl (length balances))" "1 \<le> length balances"
    using pos len by linarith+
  then have "1 \<le> length (take (nat (top1PercentIndex fl (length balances))) (sortDescending s balances))"
    by (simp add: length_sortDescending)
  then have "1 \<le> length (slice 0 (top1PercentIndex fl (length balances)) (sortDescending s balances))"
    using pos by (simp only: slice_0)
  moreover have "top1PercentShare (calculateConcentrationMetrics fl s balances) =
      number_div fl
        (Number fl (sumBalances s (slice 0 (top1PercentCount fl (length balances)) (sortDescending s balances))
           * 10000 sdiv sumBalances s balances)) 100"
    if "sumBalances s balances \<noteq> 0"
    using that assms(2)
    by (simp add: calculateConcentrationMetrics_def Let_def sumBalances_sortDescending
        length_sortDescending)
  moreover have "whales (snd (categorizeHolders fl s [])) = []"
    "top1PercentShare (calculateConcentrationMetrics fl s []) = 0"
    by (simp_all add: categorizeHolders_def calculateConcentrationMetrics_def)
  ultimately show ?thesis
    using w eq by simp
qed

theorem whales_are_the_top1_percent_bracket_witness:
  "double_rounding exact \<and> [0, 1::ref] \<noteq> [] \<and>
   top1PercentIndex exact (length [0, 1::ref]) = 1 \<and>
   top1PercentCount exact (length [0, 1::ref]) = 1 \<and>
   whales (snd (categorizeHolders exact exampleStore [0, 1])) = [1] \<and>
   sumBalances exampleStore [0, 1] \<noteq> 0 \<and>
   top1PercentShare (calculateConcentrationMetrics exact exampleStore [0, 1]) = 75"
proof -
  have "top1PercentIndex exact (length [0, 1::ref]) = 1"
    by code_simp
  moreover have "whales (snd (categorizeHolders exact exampleStore [0, 1])) = [1]"
    by code_simp
  moreover have "sumBalances exampleStore [0, 1] = 100"
    by code_simp
  moreover have "top1PercentShare (calculateConcentrationMetrics exact exampleStore [0, 1]) = 75"
    by code_simp
  ultimately show ?thesis
    using whales_are_the_top1_percent_bracket [OF double_rounding_exact, of "[0, 1]" exampleStore]
      double_rounding_exact
    by simp
qed

text \<open>
  Claim C9. On the empty list every operation returns its neutral value: the Gini
  coefficient and the moving average are \<open>0\<close>, the categories are empty with total supply
  and holder count \<open>0\<close> (and the store is untouched), and all concentration metrics are
  \<open>0\<close>.
\<close>

theorem empty_input_defaults:
  "calculateGiniCoefficient fl [] = 0 \<and>
   categorizeHolders fl s [] =
     (s, \<lparr>whales = [], dolphins = [], shrimp = [], totalSupply = 0, holderCount = 0\<rparr>) \<and>
   calculateConcentrationMetrics fl s [] =
     \<lparr>top1PercentShare = 0, top10PercentShare = 0, nakamotoCoefficient = 0\<rparr> \<and>
   calculateMovingAverageGini fl [] windowSize = Some 0"
  by (simp add: calculateGiniCoefficient_def categorizeHolders_def
      calculateConcentrationMetrics_def calculateMovingAverageGini_def)

text \<open>
  Claim C10. For a non-empty list with positive total supply, \<^const>\<open>categorizeHolders\<close>
  changes the caller's objects: after the call the \<open>percentage\<close> of every object in the
  list is the share computed from its balance (\<open>balance * 10000 / totalSupply\<close> in BigInt
  arithmetic, converted and divided by \<open>100\<close>), while address and balance are as before
  and no other object has changed.
\<close>

theorem categorizeHolders_overwrites_percentage_in_place:
  assumes "balances \<noteq> []" and "0 < sumBalances s balances"
  shows "(\<forall>holder \<in> set balances.
            percentage (fst (categorizeHolders fl s balances) holder) =
              number_div fl (Number fl (balance (s holder) * 10000 sdiv sumBalances s balances)) 100 \<and>
            address (fst (categorizeHolders fl s balances) holder) = address (s holder) \<and>
            balance (fst (categorizeHolders fl s balances) holder) = balance (s holder)) \<and>
         (\<forall>other. other \<notin> set balances \<longrightarrow> fst (categorizeHolders fl s balances) other = s other) \<and>
         totalSupply (snd (categorizeHolders fl s balances)) = sumBalances s balances"
  using assms
  by (simp add: categorizeHolders_def Let_def sumBalances_sortDescending assignPercentages_apply
      set_sortDescending)

theorem categorizeHolders_overwrites_percentage_in_place_witness:
  "[0, 1::ref] \<noteq> [] \<and> 0 < sumBalances exampleStore [0, 1] \<and>
   percentage (exampleStore 0) = 0 \<and>
   percentage (fst (categorizeHolders exact exampleStore [0, 1]) 0) = 25 \<and>
   percentage (fst (categorizeHolders exact exampleStore [0, 1]) 1) = 75 \<and>
   balance (fst (categorizeHolders exact exampleStore [0, 1]) 0) = 25 \<and>
   fst (categorizeHolders exact exampleStore [0, 1]) 2 = exampleStore 2"
proof -
  have "sumBalances exampleStore [0, 1] = 100"
    by code_simp
  moreover have "balance (exampleStore 0) = 25" "balance (exampleStore 1) = 75"
    "percentage (exampleStore 0) = 0"
    by (simp_all add: exampleStore_def)
  moreover have "number_div exact (Number exact (25 * 10000 sdiv 100)) 100 = 25"
    "number_div exact (Number exact (75 * 10000 sdiv 100)) 100 = 75"
    by code_simp+
  ultimately show ?thesis
    using categorizeHolders_overwrites_percentage_in_place [of "[0, 1]" exampleStore exact]
    by simp
qed

end
